theory Spec2Isabelle
  imports Main "HOL-Library.Word"
begin

section \<open>Data model of the I/O manager (src/lib/iomgr.cpp)\<close>

text \<open>
  The classes are declared in headers that \<^verbatim>\<open>iomgr.cpp\<close> includes; the types below carry
  the members that \<^verbatim>\<open>iomgr.cpp\<close> reads or writes, under the names the C++ code uses for
  them. Assertions that exist only in debug builds are left out.
\<close>

text \<open>\<^verbatim>\<open>enum class iomgr_state\<close>, in the order the manager walks through it.\<close>

datatype iomgr_state =
  uninitialized | interface_init | reactor_init | sys_init | running | stopping | stopped

text \<open>\<^verbatim>\<open>enum class thread_regex\<close>: the selector of \<^verbatim>\<open>multicast_msg\<close> and \<^verbatim>\<open>run_on\<close>.\<close>

datatype thread_regex =
  all_io | all_worker | all_user
  | least_busy_io | least_busy_worker | least_busy_user
  | random_worker

text \<open>
  \<^verbatim>\<open>io_thread::thread_impl\<close> is a \<^verbatim>\<open>std::variant< reactor_idx_t, spdk_thread* >\<close>: either the
  index of the owning reactor in the per-thread reactor buffer, or the handle of a polled
  (spdk) thread.
\<close>

datatype thread_impl_t = reactor_idx_impl nat | spdk_thread_impl nat

text \<open>
  An \<^verbatim>\<open>io_thread\<close>. The C++ object points back to its reactor (\<^verbatim>\<open>thr->reactor\<close>); the only thing
  \<^verbatim>\<open>iomgr.cpp\<close> reads through that pointer is \<^verbatim>\<open>is_worker()\<close>, kept here as the field
  \<open>reactor_is_worker\<close>. \<open>outstanding_ops\<close> is \<^verbatim>\<open>thr->m_metrics->outstanding_ops\<close>.
\<close>

record io_thread =
  thread_idx :: nat
  thread_addr :: nat
  thread_impl :: thread_impl_t
  outstanding_ops :: int
  reactor_is_worker :: bool

text \<open>
  A message. \<open>msg_id\<close> stands for the address of the heap allocation (what
  \<^verbatim>\<open>iomgr_msg::free\<close> receives); the other fields are the members the manager sets.
\<close>

datatype iomgr_msg_type = GENERIC | RESCHEDULE | RELINQUISH_IO_THREAD

record iomgr_msg =
  msg_id :: nat
  m_type :: iomgr_msg_type
  m_module_id :: nat
  m_dest_thread :: nat

text \<open>
  A reactor, as \<^verbatim>\<open>iomgr.cpp\<close> sees it. The class \<^verbatim>\<open>IOReactor\<close> and its two implementations
  are defined elsewhere; what its member functions return is taken as given:
  \<open>deliver_msg_ok addr msg\<close> is the boolean that \<^verbatim>\<open>deliver_msg(addr, msg)\<close> returns (true when
  the message was put on the queue of the thread at \<open>addr\<close>), \<open>select_thread\<close> the thread
  the reactor's own policy picks, \<open>addr_to_thread\<close> its lookup of a thread by address.
\<close>

record IOReactor =
  reactor_num :: nat
  is_worker :: bool
  m_worker_slot_num :: nat
  is_io_reactor :: bool
  io_threads :: "io_thread list"
  deliver_msg_ok :: "nat \<Rightarrow> iomgr_msg \<Rightarrow> bool"
  select_thread :: io_thread
  addr_to_thread :: "nat \<Rightarrow> io_thread"

text \<open>The interfaces the manager creates by itself, and those a caller adds.\<close>

datatype io_interface =
  GenericIOInterface | AioDriveInterface | SpdkDriveInterface | CustomInterface nat

text \<open>
  Timers. The classes \<^verbatim>\<open>timer_epoll\<close> and \<^verbatim>\<open>timer_spdk\<close> are defined elsewhere; a timer is
  kept as its scope, its flavour and the list of what was scheduled on it.
\<close>

record timer_info =
  nanos_after :: nat
  recurring :: bool
  cookie :: nat
  timer_fn :: nat

record timer =
  timer_scope :: thread_regex
  timer_is_spdk :: bool
  timer_entries :: "timer_info list"

datatype timer_handle_t = null_timer_handle | Timer_handle thread_regex nat

text \<open>A worker slot's OS thread: \<^verbatim>\<open>std::thread\<close>, by its slot and whether it is joinable.\<close>

datatype sys_thread = Sys_thread (thread_slot: nat) (joinable: bool)

datatype msg_handler = Internal_msg_handler | Module_msg_handler nat

text \<open>
  The manager. \<open>m_reactors\<close> is the per-thread buffer of reactor pointers
  (\<^verbatim>\<open>sisl::ActiveOnlyThreadBuffer\<close>): one entry per OS thread known to the buffer, \<open>None\<close>
  where no reactor is attached; \<open>m_worker_reactors\<close> is the vector of worker slots, each
  an OS thread and a reactor pointer that is null until \<^verbatim>\<open>reactor_started\<close> fills it.
  \<open>m_thread_idx_reserver\<close> is the bitset of \<^verbatim>\<open>sisl::IDReserver\<close>.
\<close>

record IOManager =
  m_state :: iomgr_state
  m_is_spdk :: bool
  m_is_spdk_inited_externally :: bool
  m_yet_to_start_nreactors :: int
  m_yet_to_stop_nreactors :: int
  m_worker_reactors :: "(sys_thread \<times> IOReactor option) list"
  m_reactors :: "IOReactor option list"
  m_iface_list :: "io_interface list"
  m_drive_ifaces :: "io_interface list"
  m_default_general_iface :: "io_interface option"
  m_default_drive_iface :: "io_interface option"
  m_global_user_timer :: "timer option"
  m_global_worker_timer :: "timer option"
  m_msg_handlers :: "nat \<Rightarrow> msg_handler option"
  m_msg_handlers_count :: nat
  m_internal_msg_module_id :: nat
  m_common_thread_state_notifier :: "nat option"
  m_thread_idx_reserver :: "bool list"

text \<open>
  What a call does to the world outside the manager object: the log lines it writes,
  the messages it frees (one entry per call of \<^verbatim>\<open>iomgr_msg::free\<close>, by allocation), the
  messages it puts on a queue, the next fresh allocation, and the calls it makes into the
  thread, polling and interface libraries.
\<close>

datatype log_entry = LOGINFO string | LOGWARN string | LOGERROR string

datatype delivery =
  Queued nat nat iomgr_msg \<comment> \<open>reactor, thread address, message\<close>
  | Queued_direct nat iomgr_msg \<comment> \<open>spdk thread handle, message\<close>

datatype ext_call =
  Spawn_io_thread nat bool \<comment> \<open>\<^verbatim>\<open>sisl::thread_factory\<close> running \<^verbatim>\<open>_run_io_loop(slot, is_spdk)\<close>\<close>
  | Join_thread nat
  | Run_on thread_regex string bool \<comment> \<open>\<^verbatim>\<open>run_on(regex, closure, wait_for_completion)\<close>\<close>
  | Spdk_env_init
  | Spdk_thread_lib_init
  | Set_spdk_allocator

record effects =
  logs :: "log_entry list"
  freed :: "nat list"
  queued :: "delivery list"
  next_msg_id :: nat
  calls :: "ext_call list"

text \<open>
  How a call ends: it returns, it throws, it blocks for ever on a wait, or it runs into
  undefined behaviour (a null pointer or an index out of range).
\<close>

datatype exn = Runtime_error string | System_error string

datatype 'a outcome = Returns 'a | Throws exn | Blocks | Crashes

section \<open>The thread selector\<close>

text \<open>
  \<^verbatim>\<open>static bool match_regex(thread_regex r, const io_thread_t& thr)\<close>, lines 244 to 252.
\<close>

definition match_regex :: "thread_regex \<Rightarrow> io_thread \<Rightarrow> bool" where
  "match_regex r thr =
     (if r = all_io \<or> r = least_busy_io then True
      else if reactor_is_worker thr
        then (r = all_worker \<or> r = least_busy_worker \<or> r = random_worker)
        else (r = all_user \<or> r = least_busy_user))"

section \<open>Messages\<close>

text \<open>
  Modelled from the spec: \<^verbatim>\<open>iomgr_msg::create\<close>, \<^verbatim>\<open>clone\<close> and \<^verbatim>\<open>free\<close> are defined in the message
  header. "Messages are heap-allocated and freed exactly once"; "cloned messages are
  independent allocations": \<open>iomgr_msg_create\<close> and \<open>iomgr_msg_clone\<close> take the next fresh
  allocation (a clone has the fields of the original), \<open>iomgr_msg_free\<close> records the call.
\<close>

definition iomgr_msg_create :: "iomgr_msg_type \<Rightarrow> nat \<Rightarrow> effects \<Rightarrow> iomgr_msg \<times> effects" where
  "iomgr_msg_create ty module_id eff =
     (\<lparr>msg_id = next_msg_id eff, m_type = ty, m_module_id = module_id, m_dest_thread = 0\<rparr>,
      eff\<lparr>next_msg_id := Suc (next_msg_id eff)\<rparr>)"

definition iomgr_msg_clone :: "iomgr_msg \<Rightarrow> effects \<Rightarrow> iomgr_msg \<times> effects" where
  "iomgr_msg_clone msg eff =
     (msg\<lparr>msg_id := next_msg_id eff\<rparr>, eff\<lparr>next_msg_id := Suc (next_msg_id eff)\<rparr>)"

definition iomgr_msg_free :: "iomgr_msg \<Rightarrow> effects \<Rightarrow> effects" where
  "iomgr_msg_free msg eff = eff\<lparr>freed := freed eff @ [msg_id msg]\<rparr>"

text \<open>
  Modelled from the spec: \<^verbatim>\<open>reactor->deliver_msg(addr, msg)\<close> is implemented by the reactor
  classes. "Implement deliver_msg(thread_addr, msg) returning true iff the message was
  enqueued (false frees the message via the caller)": the reactor's answer, and the message
  on the queue when the answer is true.
\<close>

definition deliver_msg :: "IOReactor \<Rightarrow> nat \<Rightarrow> iomgr_msg \<Rightarrow> effects \<Rightarrow> bool \<times> effects" where
  "deliver_msg reactor addr msg eff =
     (if deliver_msg_ok reactor addr msg
      then (True, eff\<lparr>queued := queued eff @ [Queued (reactor_num reactor) addr msg]\<rparr>)
      else (False, eff))"

text \<open>
  Modelled from the spec: \<^verbatim>\<open>IOReactorSPDK::deliver_msg_direct(spdk_thread*, msg)\<close> belongs to
  the polled reactor. "Deliver directly to that handle's queue": it returns nothing and
  the message is on the queue.
\<close>

definition deliver_msg_direct :: "nat \<Rightarrow> iomgr_msg \<Rightarrow> effects \<Rightarrow> effects" where
  "deliver_msg_direct spdk_thr msg eff = eff\<lparr>queued := queued eff @ [Queued_direct spdk_thr msg]\<rparr>"

text \<open>
  \<^verbatim>\<open>specific_reactor(thread_num, cb)\<close>, lines 378 to 381. It goes through
  \<^verbatim>\<open>m_reactors.access_specific_thread\<close> of the thread-buffer library ("look up the reactor by
  its index"): the callback gets the reactor pointer held for that thread number; where
  the buffer holds none, the callback has no reactor to work on, as with a null pointer.
\<close>

definition specific_reactor :: "IOManager \<Rightarrow> nat \<Rightarrow> (IOReactor option \<Rightarrow> 'a) \<Rightarrow> 'a" where
  "specific_reactor mgr thread_num cb =
     cb (if thread_num < length (m_reactors mgr) then m_reactors mgr ! thread_num else None)"

text \<open>
  \<^verbatim>\<open>bool IOManager::send_msg(const io_thread_t& to_thread, iomgr_msg* msg)\<close>, lines 318 to 336.
\<close>

definition send_msg :: "IOManager \<Rightarrow> io_thread \<Rightarrow> iomgr_msg \<Rightarrow> effects \<Rightarrow> bool \<times> effects" where
  "send_msg mgr to_thread msg0 eff =
     (let msg = msg0\<lparr>m_dest_thread := thread_addr to_thread\<rparr>;
          (ret, eff1) =
            (case thread_impl to_thread of
               spdk_thread_impl spdk_thr \<Rightarrow> (True, deliver_msg_direct spdk_thr msg eff)
             | reactor_idx_impl n \<Rightarrow>
                 specific_reactor mgr n (\<lambda>reactor.
                   case reactor of
                     None \<Rightarrow> (False, eff)
                   | Some R \<Rightarrow>
                       if is_io_reactor R then deliver_msg R (thread_addr to_thread) msg eff
                       else (False, eff)))
      in if \<not> ret then (False, iomgr_msg_free msg eff1) else (True, eff1))"

section \<open>Multicast\<close>

text \<open>The local variables of \<^verbatim>\<open>multicast_msg\<close>, lines 261 to 265, which its callback captures.\<close>

record mc_vars =
  sent_to :: int
  cloned :: bool
  min_cnt :: int
  min_thread :: nat
  min_reactor :: "IOReactor option"

definition INTMAX_MAX :: int where
  "INTMAX_MAX = 2 ^ 63 - 1"

definition mc_init :: mc_vars where
  "mc_init = \<lparr>sent_to = 0, cloned = False, min_cnt = INTMAX_MAX,
              min_thread = 2 ^ 32 - 1, min_reactor = None\<rparr>"

text \<open>The body of the loop over \<^verbatim>\<open>reactor->io_threads()\<close>, lines 275 to 288.\<close>

definition multicast_thread ::
  "thread_regex \<Rightarrow> iomgr_msg \<Rightarrow> IOReactor \<Rightarrow> io_thread \<Rightarrow> mc_vars \<times> effects \<Rightarrow> mc_vars \<times> effects" where
  "multicast_thread r msg reactor thr st =
     (let (v, eff) = st in
      if match_regex r thr then
        if r = least_busy_worker \<or> r = least_busy_user then
          if outstanding_ops thr < min_cnt v
          then (v\<lparr>min_thread := thread_addr thr, min_cnt := outstanding_ops thr,
                   min_reactor := Some reactor\<rparr>, eff)
          else (v, eff)
        else
          (let (new_msg, eff1) = iomgr_msg_clone msg eff;
               (_, eff2) = deliver_msg reactor (thread_addr thr) new_msg eff1
           in (v\<lparr>cloned := True, sent_to := sent_to v + 1\<rparr>, eff2))
      else (v, eff))"

primrec multicast_threads ::
  "thread_regex \<Rightarrow> iomgr_msg \<Rightarrow> IOReactor \<Rightarrow> io_thread list \<Rightarrow> mc_vars \<times> effects \<Rightarrow> mc_vars \<times> effects" where
  "multicast_threads r msg reactor [] st = st"
| "multicast_threads r msg reactor (thr # thrs) st =
     multicast_threads r msg reactor thrs (multicast_thread r msg reactor thr st)"

text \<open>The callback handed to \<^verbatim>\<open>_pick_reactors\<close>, lines 272 to 295.\<close>

definition multicast_cb ::
  "IOManager \<Rightarrow> thread_regex \<Rightarrow> iomgr_msg \<Rightarrow> IOReactor option \<Rightarrow> bool \<Rightarrow> mc_vars \<times> effects
     \<Rightarrow> mc_vars \<times> effects" where
  "multicast_cb mgr r msg reactor is_last_thread st =
     (let st1 = (case reactor of
                   None \<Rightarrow> st
                 | Some R \<Rightarrow>
                     if is_io_reactor R then multicast_threads r msg R (io_threads R) st else st);
          (v, eff) = st1
      in case min_reactor v of
           None \<Rightarrow> st1
         | Some mr \<Rightarrow>
             if is_last_thread then
               (let (ok, eff1) = send_msg mgr (addr_to_thread mr (min_thread v)) msg eff
                in if ok then (v\<lparr>sent_to := sent_to v + 1\<rparr>, eff1) else (v, eff1))
             else st1)"

text \<open>
  Modelled from the spec: \<^verbatim>\<open>m_reactors.access_all_threads\<close> belongs to the thread-buffer
  library. "Iterate every reactor attached to any thread. The is_last flag triggers
  finalization": the callback is called once per entry of the buffer, in order, with
  \<^verbatim>\<open>is_last_thread\<close> set on the last one. \<^verbatim>\<open>all_reactors(cb)\<close>, lines 373 to 376, hands its
  callback to it.
\<close>

fun access_all_threads :: "(IOReactor option \<Rightarrow> bool \<Rightarrow> 's \<Rightarrow> 's) \<Rightarrow> IOReactor option list \<Rightarrow> 's \<Rightarrow> 's" where
  "access_all_threads cb [] st = st"
| "access_all_threads cb (x # xs) st = access_all_threads cb xs (cb x (xs = []) st)"

definition all_reactors :: "IOManager \<Rightarrow> (IOReactor option \<Rightarrow> bool \<Rightarrow> 's \<Rightarrow> 's) \<Rightarrow> 's \<Rightarrow> 's" where
  "all_reactors mgr cb st = access_all_threads cb (m_reactors mgr) st"

text \<open>
  The loop over the worker slots in \<^verbatim>\<open>_pick_reactors\<close>, lines 304 to 306, by the index \<open>i\<close>
  as in the code.
\<close>

function worker_slots_loop ::
  "(IOReactor option \<Rightarrow> bool \<Rightarrow> 's \<Rightarrow> 's) \<Rightarrow> (sys_thread \<times> IOReactor option) list \<Rightarrow> nat \<Rightarrow> 's \<Rightarrow> 's" where
  "worker_slots_loop cb ws i st =
     (if i < length ws
      then worker_slots_loop cb ws (Suc i) (cb (snd (ws ! i)) (i = length ws - 1) st)
      else st)"
  by pat_completeness auto
termination
  by (relation "measure (\<lambda>(cb, ws, i, st). length ws - i)") auto

declare worker_slots_loop.simps [simp del]

text \<open>\<^verbatim>\<open>void IOManager::_pick_reactors(thread_regex r, const auto& cb)\<close>, lines 302 to 310.\<close>

definition pick_reactors ::
  "IOManager \<Rightarrow> thread_regex \<Rightarrow> (IOReactor option \<Rightarrow> bool \<Rightarrow> 's \<Rightarrow> 's) \<Rightarrow> 's \<Rightarrow> 's" where
  "pick_reactors mgr r cb st =
     (if r = all_worker \<or> r = least_busy_worker
      then worker_slots_loop cb (m_worker_reactors mgr) 0 st
      else all_reactors mgr cb st)"

text \<open>The last two lines of \<^verbatim>\<open>multicast_msg\<close>, 298 and 299.\<close>

definition multicast_finish :: "iomgr_msg \<Rightarrow> mc_vars \<times> effects \<Rightarrow> int \<times> effects" where
  "multicast_finish msg st =
     (let (v, eff) = st in
      if cloned v \<or> sent_to v = 0 then (sent_to v, iomgr_msg_free msg eff) else (sent_to v, eff))"

text \<open>
  \<^verbatim>\<open>int IOManager::multicast_msg(thread_regex r, iomgr_msg* msg)\<close>, lines 260 to 300. \<open>rnd\<close> is the
  number that \<^verbatim>\<open>std::experimental::randint(0, size - 1)\<close> draws; with no worker slot there is
  no such number, and a slot whose reactor pointer is still null is dereferenced.
\<close>

definition multicast_msg ::
  "IOManager \<Rightarrow> nat \<Rightarrow> thread_regex \<Rightarrow> iomgr_msg \<Rightarrow> effects \<Rightarrow> (int \<times> effects) outcome" where
  "multicast_msg mgr rnd r msg eff =
     (if r = random_worker then
        (if rnd < length (m_worker_reactors mgr) then
           (case snd (m_worker_reactors mgr ! rnd) of
              None \<Rightarrow> Crashes
            | Some reactor \<Rightarrow>
                (let (ok, eff1) = deliver_msg reactor (thread_idx (select_thread reactor)) msg eff
                 in Returns (multicast_finish msg (mc_init\<lparr>sent_to := (if ok then 1 else 0)\<rparr>, eff1))))
         else Crashes)
      else Returns (multicast_finish msg (pick_reactors mgr r (multicast_cb mgr r msg) (mc_init, eff))))"

section \<open>Global timers\<close>

text \<open>
  Modelled from the spec: \<^verbatim>\<open>timer::schedule\<close> is defined with the timer classes. "Each exposes
  schedule(nanos_after, recurring, cookie, callback) -> handle": the timer keeps the entry
  and the handle names it.
\<close>

definition timer_schedule :: "timer \<Rightarrow> nat \<Rightarrow> bool \<Rightarrow> nat \<Rightarrow> nat \<Rightarrow> timer_handle_t \<times> timer" where
  "timer_schedule t nanos rec ck fn =
     (Timer_handle (timer_scope t) (length (timer_entries t)),
      t\<lparr>timer_entries := timer_entries t @
          [\<lparr>nanos_after = nanos, recurring = rec, cookie = ck, timer_fn = fn\<rparr>]\<rparr>)"

text \<open>
  \<^verbatim>\<open>timer_handle_t IOManager::schedule_global_timer(...)\<close>, lines 349 to 362. The pointer \<^verbatim>\<open>t\<close> is
  what \<^verbatim>\<open>m_global_worker_timer.get()\<close> or \<^verbatim>\<open>m_global_user_timer.get()\<close> gives, null before
  \<^verbatim>\<open>start\<close> has made the timers and after \<^verbatim>\<open>stop\<close> has reset them. \<^verbatim>\<open>LOGMSG_ASSERT(0, ...)\<close> is a
  macro of the logging library ("reported as a warning log plus a no-op (or null
  handle)"): it writes its line and execution goes on to the \<^verbatim>\<open>return\<close> behind it.
\<close>

definition schedule_global_timer ::
  "nat \<Rightarrow> bool \<Rightarrow> nat \<Rightarrow> thread_regex \<Rightarrow> nat \<Rightarrow> IOManager \<Rightarrow> effects
     \<Rightarrow> timer_handle_t outcome \<times> IOManager \<times> effects" where
  "schedule_global_timer nanos rec ck r fn mgr eff =
     (if r = all_worker then
        (case m_global_worker_timer mgr of
           None \<Rightarrow> (Crashes, mgr, eff)
         | Some t \<Rightarrow>
             (let (h, t') = timer_schedule t nanos rec ck fn
              in (Returns h, mgr\<lparr>m_global_worker_timer := Some t'\<rparr>, eff)))
      else if r = all_user then
        (case m_global_user_timer mgr of
           None \<Rightarrow> (Crashes, mgr, eff)
         | Some t \<Rightarrow>
             (let (h, t') = timer_schedule t nanos rec ck fn
              in (Returns h, mgr\<lparr>m_global_user_timer := Some t'\<rparr>, eff)))
      else
        (Returns null_timer_handle, mgr,
         eff\<lparr>logs := logs eff @ [LOGERROR ''Setting timer with invalid regex'']\<rparr>))"

section \<open>Thread indices\<close>

text \<open>
  Modelled from the spec: \<^verbatim>\<open>m_thread_idx_reserver.reserve()\<close> belongs to the id-reserver
  library. "Hands out dense small integer slots and returns them on release": it takes
  the first clear bit of its bitset, and a bit past the end when every bit is set (which
  is how line 393 can see an index at or above the limit). \<open>get_next_reset_bit\<close> is the
  index of the first clear bit, or the length when there is none.
\<close>

fun get_next_reset_bit :: "bool list \<Rightarrow> nat" where
  "get_next_reset_bit [] = 0"
| "get_next_reset_bit (b # bs) = (if b then Suc (get_next_reset_bit bs) else 0)"

definition reserve :: "bool list \<Rightarrow> nat \<times> bool list" where
  "reserve bits =
     (let n = get_next_reset_bit bits
      in (n, if n < length bits then bits[n := True] else bits @ [True]))"

text \<open>Whether an index is held by the reserver.\<close>

definition is_reserved :: "bool list \<Rightarrow> nat \<Rightarrow> bool" where
  "is_reserved bits n = (n < length bits \<and> bits ! n)"

text \<open>
  Modelled from the spec: the constructor \<^verbatim>\<open>io_thread(IOReactor*)\<close> is in the header. An
  io thread has an "owning reactor" and a "backend identity (either an opaque
  polled-thread handle or a reactor index)": the new thread belongs to the reactor and is
  reached through the reactor's index; the other members start at zero.
\<close>

definition new_io_thread :: "IOReactor \<Rightarrow> io_thread" where
  "new_io_thread reactor =
     \<lparr>thread_idx = 0, thread_addr = 0, thread_impl = reactor_idx_impl (reactor_num reactor),
      outstanding_ops = 0, reactor_is_worker = is_worker reactor\<rparr>"

text \<open>
  \<^verbatim>\<open>io_thread_t IOManager::make_io_thread(IOReactor* reactor)\<close>, lines 390 to 397.
  \<open>max_io_threads\<close> is a constant of the header, taken as a parameter.
\<close>

definition make_io_thread :: "nat \<Rightarrow> IOReactor \<Rightarrow> IOManager \<Rightarrow> io_thread outcome \<times> IOManager" where
  "make_io_thread max_io_threads reactor mgr =
     (let t = new_io_thread reactor;
          (idx, bits) = reserve (m_thread_idx_reserver mgr);
          t1 = t\<lparr>thread_idx := idx\<rparr>;
          mgr1 = mgr\<lparr>m_thread_idx_reserver := bits\<rparr>
      in if thread_idx t1 \<ge> max_io_threads
         then (Throws (System_error ''Running IO Threads exceeds limit''), mgr1)
         else (Returns t1, mgr1))"

section \<open>Aligned buffers\<close>







section \<open>Start and stop\<close>

definition set_state :: "iomgr_state \<Rightarrow> IOManager \<Rightarrow> IOManager" where
  "set_state s mgr = mgr\<lparr>m_state := s\<rparr>"

text \<open>\<^verbatim>\<open>register_msg_module\<close>, lines 383 to 388 (the debug-only assertion left out).\<close>

definition register_msg_module :: "msg_handler \<Rightarrow> IOManager \<Rightarrow> nat \<times> IOManager" where
  "register_msg_module handler mgr =
     (let n = m_msg_handlers_count mgr;
          mgr1 = mgr\<lparr>m_msg_handlers := (m_msg_handlers mgr)(n \<mapsto> handler),
                      m_msg_handlers_count := Suc n\<rparr>
      in (m_msg_handlers_count mgr1 - 1, mgr1))"

text \<open>
  \<^verbatim>\<open>add_interface\<close> and \<^verbatim>\<open>add_drive_interface\<close>, lines 191 to 208. \<^verbatim>\<open>run_on(regex, closure, wait)\<close>
  is a template of the header; the call is recorded, by its selector, the name of what
  the closure calls, and the wait flag.
\<close>

definition add_interface :: "io_interface \<Rightarrow> IOManager \<Rightarrow> effects \<Rightarrow> IOManager \<times> effects" where
  "add_interface iface mgr eff =
     (mgr\<lparr>m_iface_list := m_iface_list mgr @ [iface]\<rparr>,
      eff\<lparr>calls := calls eff @ [Run_on all_io ''on_io_thread_start'' True]\<rparr>)"

definition add_drive_interface ::
  "io_interface \<Rightarrow> bool \<Rightarrow> IOManager \<Rightarrow> effects \<Rightarrow> IOManager \<times> effects" where
  "add_drive_interface iface default_iface mgr eff =
     (let (mgr1, eff1) = add_interface iface mgr eff;
          mgr2 = mgr1\<lparr>m_drive_ifaces := m_drive_ifaces mgr1 @ [iface]\<rparr>
      in (if default_iface then mgr2\<lparr>m_default_drive_iface := Some iface\<rparr> else mgr2, eff1))"

text \<open>
  What \<^verbatim>\<open>start\<close> meets outside the manager: the answers of the spdk environment, the reactor
  that the thread of each worker slot builds and registers through \<^verbatim>\<open>reactor_started\<close>
  (\<open>None\<close> for a thread that never gets there), and whether the block-device subsystem
  reports its initialization.
\<close>

record start_env =
  spdk_env_dpdk_external_init :: bool
  spdk_env_init_rc :: int
  spdk_thread_lib_init_rc :: int
  slot_reactor :: "nat \<Rightarrow> IOReactor option"
  bdev_initialized :: bool

text \<open>\<^verbatim>\<open>void IOManager::start_spdk()\<close>, lines 120 to 144.\<close>

definition start_spdk :: "start_env \<Rightarrow> IOManager \<Rightarrow> effects \<Rightarrow> unit outcome \<times> IOManager \<times> effects" where
  "start_spdk env mgr eff =
     (let mgr1 = mgr\<lparr>m_is_spdk_inited_externally := \<not> spdk_env_dpdk_external_init env\<rparr>
      in if \<not> m_is_spdk_inited_externally mgr1 then
           (let eff1 = eff\<lparr>calls := calls eff @ [Spdk_env_init]\<rparr>
            in if spdk_env_init_rc env \<noteq> 0
               then (Throws (Runtime_error ''SPDK Iniitalization failed''), mgr1, eff1)
               else
                 (let eff2 = eff1\<lparr>calls := calls eff1 @ [Spdk_thread_lib_init]\<rparr>
                  in if spdk_thread_lib_init_rc env \<noteq> 0
                     then (Throws (Runtime_error ''SPDK Thread Lib Init failed''), mgr1,
                           eff2\<lparr>logs := logs eff2 @ [LOGERROR ''Thread lib init returned rte_errno'']\<rparr>)
                     else (Returns (), mgr1, eff2\<lparr>calls := calls eff2 @ [Set_spdk_allocator]\<rparr>)))
         else (Returns (), mgr1, eff\<lparr>calls := calls eff @ [Set_spdk_allocator]\<rparr>))"

text \<open>
  \<^verbatim>\<open>reactor_started\<close> and \<^verbatim>\<open>reactor_stopped\<close>, lines 222 to 237, which the reactor threads call.
\<close>

definition reactor_started :: "IOReactor \<Rightarrow> IOManager \<Rightarrow> IOManager" where
  "reactor_started reactor mgr =
     (let mgr1 = mgr\<lparr>m_yet_to_stop_nreactors := m_yet_to_stop_nreactors mgr + 1\<rparr>
      in if is_worker reactor then
           (let slot = m_worker_slot_num reactor;
                mgr2 = mgr1\<lparr>m_worker_reactors :=
                         (m_worker_reactors mgr1)[slot := (fst (m_worker_reactors mgr1 ! slot), Some reactor)]\<rparr>;
                mgr3 = mgr2\<lparr>m_yet_to_start_nreactors := m_yet_to_start_nreactors mgr2 - 1\<rparr>
            in if m_yet_to_start_nreactors mgr3 = 0 then set_state sys_init mgr3 else mgr3)
         else mgr1)"

definition reactor_stopped :: "IOManager \<Rightarrow> IOManager" where
  "reactor_stopped mgr =
     (let mgr1 = mgr\<lparr>m_yet_to_stop_nreactors := m_yet_to_stop_nreactors mgr - 1\<rparr>
      in if m_yet_to_stop_nreactors mgr1 = 0 then set_state stopped mgr1 else mgr1)"

text \<open>
  The loop of \<^verbatim>\<open>start\<close> that makes the worker slots, lines 83 to 89, and what the threads it
  spawns do while \<^verbatim>\<open>start\<close> waits for \<open>sys_init\<close>: the thread of slot \<open>i\<close> runs
  \<^verbatim>\<open>_run_io_loop\<close>, lines 210 to 218, which attaches its reactor to the per-thread buffer and
  runs it, and the reactor calls \<^verbatim>\<open>reactor_started\<close>. The threads are taken in slot order.
\<close>

primrec spawn_workers :: "nat \<Rightarrow> nat \<Rightarrow> bool \<Rightarrow> IOManager \<Rightarrow> effects \<Rightarrow> IOManager \<times> effects" where
  "spawn_workers 0 i is_spdk mgr eff = (mgr, eff)"
| "spawn_workers (Suc n) i is_spdk mgr eff =
     spawn_workers n (Suc i) is_spdk
       (mgr\<lparr>m_worker_reactors := m_worker_reactors mgr @ [(Sys_thread i True, None)]\<rparr>)
       (eff\<lparr>calls := calls eff @ [Spawn_io_thread i is_spdk]\<rparr>)"

primrec run_io_loops :: "start_env \<Rightarrow> nat list \<Rightarrow> IOManager \<Rightarrow> IOManager" where
  "run_io_loops env [] mgr = mgr"
| "run_io_loops env (i # slots) mgr =
     run_io_loops env slots
       (case slot_reactor env i of
          None \<Rightarrow> mgr
        | Some R \<Rightarrow> reactor_started R (mgr\<lparr>m_reactors := m_reactors mgr @ [Some R]\<rparr>))"

text \<open>
  \<^verbatim>\<open>void IOManager::start(num_threads, is_spdk, notifier, iface_adder)\<close>, lines 46 to 118, in
  two parts: \<open>start_reactors\<close> is the second half, from line 81 on, and \<open>start\<close> the whole.
  A missing \<^verbatim>\<open>iface_adder\<close> is \<open>None\<close>; \<^verbatim>\<open>wait_for_state\<close> returns when the state is the one
  waited for and blocks otherwise.
\<close>

definition start_reactors ::
  "nat \<Rightarrow> bool \<Rightarrow> start_env \<Rightarrow> IOManager \<Rightarrow> effects \<Rightarrow> unit outcome \<times> IOManager \<times> effects" where
  "start_reactors num_threads is_spdk env mgr eff =
     (let mgr1 = set_state reactor_init mgr;
          (mgr2, eff2) = spawn_workers num_threads 0 (m_is_spdk mgr1) mgr1 eff;
          mgr3 = run_io_loops env [0..<num_threads] mgr2
      in if m_state mgr3 \<noteq> sys_init then (Blocks, mgr3, eff2)
         else
           (let mgr4 = mgr3\<lparr>m_global_user_timer :=
                         Some \<lparr>timer_scope = all_user, timer_is_spdk = False, timer_entries = []\<rparr>,
                       m_global_worker_timer :=
                         Some \<lparr>timer_scope = all_worker, timer_is_spdk = is_spdk, timer_entries = []\<rparr>\<rparr>;
                notify = Run_on all_io ''notify_thread_state'' False
            in if is_spdk \<and> \<not> m_is_spdk_inited_externally mgr4 then
                 (let eff3 = eff2\<lparr>logs := logs eff2 @ [LOGINFO ''Initializing bdev subsystem''],
                                 calls := calls eff2 @ [Run_on least_busy_worker ''spdk_bdev_initialize'' False]\<rparr>
                  in if bdev_initialized env
                     then (Returns (), set_state running mgr4, eff3\<lparr>calls := calls eff3 @ [notify]\<rparr>)
                     else (Blocks, mgr4, eff3))
               else (Returns (), set_state running mgr4, eff2\<lparr>calls := calls eff2 @ [notify]\<rparr>)))"

definition start ::
  "nat \<Rightarrow> bool \<Rightarrow> nat option \<Rightarrow> (IOManager \<times> effects \<Rightarrow> IOManager \<times> effects) option \<Rightarrow> start_env
     \<Rightarrow> IOManager \<Rightarrow> effects \<Rightarrow> unit outcome \<times> IOManager \<times> effects" where
  "start num_threads is_spdk notifier iface_adder env mgr eff =
     (if m_state mgr = running then
        (Returns (), mgr,
         eff\<lparr>logs := logs eff @ [LOGWARN ''WARNING: IOManager is asked to start, but it is already in running state. Ignoring the start request'']\<rparr>)
      else
        (let eff1 = eff\<lparr>logs := logs eff @ [LOGINFO ''Starting IOManager'']\<rparr>;
             mgr1 = mgr\<lparr>m_is_spdk := is_spdk, m_yet_to_start_nreactors := int num_threads,
                        m_common_thread_state_notifier := notifier\<rparr>;
             (id, mgr2) = register_msg_module Internal_msg_handler mgr1;
             mgr3 = mgr2\<lparr>m_internal_msg_module_id := id\<rparr>
         in case (if is_spdk then start_spdk env mgr3 eff1 else (Returns (), mgr3, eff1)) of
              (Returns u, mgr4, eff4) \<Rightarrow>
                (let mgr5 = set_state interface_init mgr4;
                     mgr6 = mgr5\<lparr>m_default_general_iface := Some GenericIOInterface\<rparr>;
                     (mgr7, eff7) = add_interface GenericIOInterface mgr6 eff4;
                     (mgr8, eff8) =
                       (case iface_adder of
                          Some adder \<Rightarrow> adder (mgr7, eff7)
                        | None \<Rightarrow>
                            add_drive_interface
                              (if is_spdk then SpdkDriveInterface else AioDriveInterface) True mgr7 eff7)
                 in start_reactors num_threads is_spdk env mgr8 eff8)
            | (ended, mgr4, eff4) \<Rightarrow> (ended, mgr4, eff4)))"

text \<open>
  \<^verbatim>\<open>void IOManager::stop()\<close>, lines 146 to 189. \<open>n_stopped\<close> is the number of reactor threads
  that call \<^verbatim>\<open>reactor_stopped\<close> while \<^verbatim>\<open>stop\<close> waits for the state \<open>stopped\<close>; when the
  counter is at zero after the decrement of line 163, \<^verbatim>\<open>stop\<close> sets the state itself and
  does not wait.
\<close>

primrec reactors_stop :: "nat \<Rightarrow> IOManager \<Rightarrow> IOManager" where
  "reactors_stop 0 mgr = mgr"
| "reactors_stop (Suc n) mgr = reactors_stop n (reactor_stopped mgr)"

definition join_threads :: "(sys_thread \<times> IOReactor option) list \<Rightarrow> ext_call list" where
  "join_threads ws = map (\<lambda>t. Join_thread (thread_slot (fst t))) (filter (\<lambda>t. joinable (fst t)) ws)"

definition stop :: "nat \<Rightarrow> IOManager \<Rightarrow> effects \<Rightarrow> unit outcome \<times> IOManager \<times> effects" where
  "stop n_stopped mgr eff =
     (let eff1 = eff\<lparr>logs := logs eff @ [LOGINFO ''Stopping IOManager'']\<rparr>;
          mgr1 = set_state stopping mgr;
          mgr2 = mgr1\<lparr>m_yet_to_stop_nreactors := m_yet_to_stop_nreactors mgr1 + 1\<rparr>;
          mgr3 = mgr2\<lparr>m_global_user_timer := None, m_global_worker_timer := None\<rparr>;
          (msg, eff2) = iomgr_msg_create RELINQUISH_IO_THREAD (m_internal_msg_module_id mgr3) eff1
      in case multicast_msg mgr3 0 all_io msg eff2 of
           Returns (n, eff3) \<Rightarrow>
             (let mgr4 = mgr3\<lparr>m_yet_to_stop_nreactors := m_yet_to_stop_nreactors mgr3 - 1\<rparr>;
                  mgr5 = (if m_yet_to_stop_nreactors mgr4 = 0 then set_state stopped mgr4
                          else reactors_stop n_stopped mgr4)
              in if m_state mgr5 \<noteq> stopped then (Blocks, mgr5, eff3)
                 else
                   (let eff4 = eff3\<lparr>logs := logs eff3 @ [LOGINFO ''All IO threads have stopped''],
                                   calls := calls eff3 @ join_threads (m_worker_reactors mgr5)\<rparr>;
                        mgr6 = mgr5\<lparr>m_worker_reactors := [], m_yet_to_start_nreactors := 0,
                                   m_drive_ifaces := [], m_iface_list := []\<rparr>
                    in (Returns (), mgr6,
                        eff4\<lparr>logs := logs eff4 @ [LOGINFO ''IOManager Stopped and all IO threads are relinquished'']\<rparr>)))
         | Throws e \<Rightarrow> (Throws e, mgr3, eff2)
         | Blocks \<Rightarrow> (Blocks, mgr3, eff2)
         | Crashes \<Rightarrow> (Crashes, mgr3, eff2))"

section \<open>Notions used to state the properties\<close>

text \<open>
  The reactor pointers that \<open>pick_reactors\<close> hands to its callback, in order: the worker
  slots for \<open>all_worker\<close> and \<open>least_busy_worker\<close>, the per-thread buffer otherwise.
\<close>

definition picked_reactors :: "IOManager \<Rightarrow> thread_regex \<Rightarrow> IOReactor option list" where
  "picked_reactors mgr r =
     (if r = all_worker \<or> r = least_busy_worker then map snd (m_worker_reactors mgr)
      else m_reactors mgr)"

text \<open>
  The threads that the callback of \<open>multicast_msg\<close> looks at and finds matching, each with
  the reactor it belongs to, in the order of the scan: those of one reactor pointer, and
  those of a list of reactor pointers.
\<close>

definition reactor_matches :: "thread_regex \<Rightarrow> IOReactor option \<Rightarrow> (IOReactor \<times> io_thread) list" where
  "reactor_matches r reactor =
     (case reactor of
        None \<Rightarrow> []
      | Some R \<Rightarrow> if is_io_reactor R then map (Pair R) (filter (match_regex r) (io_threads R)) else [])"

definition matching_threads :: "thread_regex \<Rightarrow> IOReactor option list \<Rightarrow> (IOReactor \<times> io_thread) list" where
  "matching_threads r rs = concat (map (reactor_matches r) rs)"

text \<open>
  What the scan of the \<open>least_busy\<close> selectors leaves in the local variables after a list of
  matching threads, and the send that ends the last callback.
\<close>

fun least_busy_scan :: "(IOReactor \<times> io_thread) list \<Rightarrow> mc_vars \<Rightarrow> mc_vars" where
  "least_busy_scan [] v = v"
| "least_busy_scan (c # cs) v =
     least_busy_scan cs
       (if outstanding_ops (snd c) < min_cnt v
        then v\<lparr>min_thread := thread_addr (snd c), min_cnt := outstanding_ops (snd c),
               min_reactor := Some (fst c)\<rparr>
        else v)"

definition least_busy_send :: "IOManager \<Rightarrow> iomgr_msg \<Rightarrow> mc_vars \<times> effects \<Rightarrow> mc_vars \<times> effects" where
  "least_busy_send mgr msg st =
     (let (v, eff) = st
      in case min_reactor v of
           None \<Rightarrow> st
         | Some mr \<Rightarrow>
             (let (ok, eff1) = send_msg mgr (addr_to_thread mr (min_thread v)) msg eff
              in if ok then (v\<lparr>sent_to := sent_to v + 1\<rparr>, eff1) else (v, eff1)))"

text \<open>
  \<open>first_least_busy cs i\<close>: the thread at position \<open>i\<close> of the scan has the least
  \<open>outstanding_ops\<close> of all scanned threads, and every thread scanned before it has
  strictly more. \<open>chosen c v\<close> are the local variables once the scan has settled on \<open>c\<close>.
\<close>

definition first_least_busy :: "(IOReactor \<times> io_thread) list \<Rightarrow> nat \<Rightarrow> bool" where
  "first_least_busy cs i =
     (i < length cs
      \<and> (\<forall>j < length cs. outstanding_ops (snd (cs ! i)) \<le> outstanding_ops (snd (cs ! j)))
      \<and> (\<forall>j < i. outstanding_ops (snd (cs ! i)) < outstanding_ops (snd (cs ! j))))"

definition chosen :: "(IOReactor \<times> io_thread) \<Rightarrow> mc_vars \<Rightarrow> mc_vars" where
  "chosen c v = v\<lparr>min_thread := thread_addr (snd c), min_cnt := outstanding_ops (snd c),
                   min_reactor := Some (fst c)\<rparr>"

text \<open>The value a call returned, if it returned; the message of a queue entry.\<close>

definition returned :: "'a outcome \<Rightarrow> 'a option" where
  "returned x = (case x of Returns y \<Rightarrow> Some y | _ \<Rightarrow> None)"

fun delivered_msg :: "delivery \<Rightarrow> iomgr_msg" where
  "delivered_msg (Queued reactor addr msg) = msg"
| "delivered_msg (Queued_direct spdk_thr msg) = msg"

text \<open>
  What the selectors that clone (\<open>all_io\<close>, \<open>all_worker\<close>, \<open>all_user\<close>, and \<open>least_busy_io\<close>, which
  the callback treats like them) do for a list of matching threads: one clone per thread,
  offered to the thread's reactor, and the count kept in the local variables.
\<close>

fun deliver_clones :: "iomgr_msg \<Rightarrow> (IOReactor \<times> io_thread) list \<Rightarrow> effects \<Rightarrow> effects" where
  "deliver_clones msg [] eff = eff"
| "deliver_clones msg (c # cs) eff =
     deliver_clones msg cs
       (let (new_msg, eff1) = iomgr_msg_clone msg eff
        in snd (deliver_msg (fst c) (thread_addr (snd c)) new_msg eff1))"

definition count_clones :: "nat \<Rightarrow> mc_vars \<Rightarrow> mc_vars" where
  "count_clones k v = (if k = 0 then v else v\<lparr>cloned := True, sent_to := sent_to v + int k\<rparr>)"

text \<open>The message that \<open>stop\<close> creates, line 160.\<close>

definition relinquish_msg :: "IOManager \<Rightarrow> effects \<Rightarrow> iomgr_msg" where
  "relinquish_msg mgr eff =
     \<lparr>msg_id = next_msg_id eff, m_type = RELINQUISH_IO_THREAD,
      m_module_id = m_internal_msg_module_id mgr, m_dest_thread = 0\<rparr>"

section \<open>Example configurations\<close>

text \<open>
  \<^verbatim>\<open>IOManager::IOManager()\<close>, lines 40 to 42: the reserver gets \<open>max_io_threads\<close> clear bits;
  every other member is empty and the state is \<open>uninitialized\<close>.
\<close>

definition IOManager_ctor :: "nat \<Rightarrow> IOManager" where
  "IOManager_ctor max_io_threads =
     \<lparr>m_state = uninitialized, m_is_spdk = False, m_is_spdk_inited_externally = False,
      m_yet_to_start_nreactors = 0, m_yet_to_stop_nreactors = 0,
      m_worker_reactors = [], m_reactors = [], m_iface_list = [], m_drive_ifaces = [],
      m_default_general_iface = None, m_default_drive_iface = None,
      m_global_user_timer = None, m_global_worker_timer = None,
      m_msg_handlers = Map.empty, m_msg_handlers_count = 0, m_internal_msg_module_id = 0,
      m_common_thread_state_notifier = None,
      m_thread_idx_reserver = replicate max_io_threads False\<rparr>"

text \<open>
  A worker thread of an event-driven reactor (reached through its reactor's index) and a
  thread of a polled reactor (reached through its spdk handle).
\<close>

definition thr_w0 :: io_thread where
  "thr_w0 = \<lparr>thread_idx = 0, thread_addr = 0, thread_impl = reactor_idx_impl 0,
             outstanding_ops = 0, reactor_is_worker = True\<rparr>"

definition thr_spdk :: io_thread where
  "thr_spdk = \<lparr>thread_idx = 1, thread_addr = 0, thread_impl = spdk_thread_impl 7,
               outstanding_ops = 0, reactor_is_worker = True\<rparr>"

text \<open>
  A worker reactor with the single thread \<open>thr_w0\<close>, in two versions: one whose
  \<^verbatim>\<open>deliver_msg\<close> puts every message on its queue, and one whose \<^verbatim>\<open>deliver_msg\<close> returns false.
\<close>

definition accepting_reactor :: IOReactor where
  "accepting_reactor = \<lparr>reactor_num = 0, is_worker = True, m_worker_slot_num = 0,
     is_io_reactor = True, io_threads = [thr_w0], deliver_msg_ok = (\<lambda>addr msg. True),
     select_thread = thr_w0, addr_to_thread = (\<lambda>addr. thr_w0)\<rparr>"

definition refusing_reactor :: IOReactor where
  "refusing_reactor = \<lparr>reactor_num = 0, is_worker = True, m_worker_slot_num = 0,
     is_io_reactor = True, io_threads = [thr_w0], deliver_msg_ok = (\<lambda>addr msg. False),
     select_thread = thr_w0, addr_to_thread = (\<lambda>addr. thr_w0)\<rparr>"

text \<open>A second worker reactor, in slot 1, whose thread is as idle as \<open>thr_w0\<close>.\<close>

definition thr_w1 :: io_thread where
  "thr_w1 = \<lparr>thread_idx = 1, thread_addr = 0, thread_impl = reactor_idx_impl 1,
             outstanding_ops = 0, reactor_is_worker = True\<rparr>"

definition accepting_reactor1 :: IOReactor where
  "accepting_reactor1 = \<lparr>reactor_num = 1, is_worker = True, m_worker_slot_num = 1,
     is_io_reactor = True, io_threads = [thr_w1], deliver_msg_ok = (\<lambda>addr msg. True),
     select_thread = thr_w1, addr_to_thread = (\<lambda>addr. thr_w1)\<rparr>"

text \<open>
  A manager in state \<open>s\<close> whose worker slots hold the reactors \<open>rs\<close>, each also attached to
  the per-thread buffer, with the two built-in interfaces and both global timers.
\<close>

definition mgr_with :: "iomgr_state \<Rightarrow> IOReactor list \<Rightarrow> IOManager" where
  "mgr_with s rs =
     \<lparr>m_state = s, m_is_spdk = False, m_is_spdk_inited_externally = False,
      m_yet_to_start_nreactors = 0, m_yet_to_stop_nreactors = int (length rs),
      m_worker_reactors = map (\<lambda>R. (Sys_thread (m_worker_slot_num R) True, Some R)) rs,
      m_reactors = map Some rs,
      m_iface_list = [GenericIOInterface, AioDriveInterface],
      m_drive_ifaces = [AioDriveInterface],
      m_default_general_iface = Some GenericIOInterface,
      m_default_drive_iface = Some AioDriveInterface,
      m_global_user_timer =
        Some \<lparr>timer_scope = all_user, timer_is_spdk = False, timer_entries = []\<rparr>,
      m_global_worker_timer =
        Some \<lparr>timer_scope = all_worker, timer_is_spdk = False, timer_entries = []\<rparr>,
      m_msg_handlers = Map.empty(0 \<mapsto> Internal_msg_handler), m_msg_handlers_count = 1,
      m_internal_msg_module_id = 0, m_common_thread_state_notifier = None,
      m_thread_idx_reserver = [True, False]\<rparr>"

definition eff0 :: effects where
  "eff0 = \<lparr>logs = [], freed = [], queued = [], next_msg_id = 1, calls = []\<rparr>"

definition msg0 :: iomgr_msg where
  "msg0 = \<lparr>msg_id = 0, m_type = GENERIC, m_module_id = 0, m_dest_thread = 0\<rparr>"

definition env0 :: start_env where
  "env0 = \<lparr>spdk_env_dpdk_external_init = True, spdk_env_init_rc = 0, spdk_thread_lib_init_rc = 0,
           slot_reactor = (\<lambda>i. None), bdev_initialized = True\<rparr>"

section \<open>Properties\<close>

subsection \<open>Helper facts\<close>

lemma worker_slots_loop_drop:
  "worker_slots_loop cb ws i st = access_all_threads cb (drop i (map snd ws)) st"
proof (induction cb ws i st rule: worker_slots_loop.induct)
  case (1 cb ws i st)
  show ?case
  proof (cases "i < length ws")
    case True
    have d: "drop i (map snd ws) = snd (ws ! i) # drop (Suc i) (map snd ws)"
      using True by (metis Cons_nth_drop_Suc length_map nth_map)
    have e: "(drop (Suc i) (map snd ws) = []) = (i = length ws - 1)"
      using True by auto
    have "worker_slots_loop cb ws i st =
          worker_slots_loop cb ws (Suc i) (cb (snd (ws ! i)) (i = length ws - 1) st)"
      using True by (subst worker_slots_loop.simps) (simp only: if_True)
    also have "\<dots> = access_all_threads cb (drop (Suc i) (map snd ws))
                      (cb (snd (ws ! i)) (i = length ws - 1) st)"
      using 1 True by blast
    also have "\<dots> = access_all_threads cb (drop i (map snd ws)) st"
      by (simp only: d access_all_threads.simps e)
    finally show ?thesis .
  next
    case False
    then have "drop i (map snd ws) = []" by simp
    then show ?thesis
      using False by (subst worker_slots_loop.simps) (simp only: if_False access_all_threads.simps)
  qed
qed

lemma get_next_reset_bit_le: "get_next_reset_bit bits \<le> length bits"
  by (induction bits) auto

lemma get_next_reset_bit_clear:
  "get_next_reset_bit bits < length bits \<Longrightarrow> \<not> bits ! get_next_reset_bit bits"
  by (induction bits) auto

lemma reserve_fresh: "\<not> is_reserved bits (fst (reserve bits))"
  using get_next_reset_bit_clear [of bits] by (auto simp: reserve_def is_reserved_def Let_def)

lemma reserve_reserved: "is_reserved (snd (reserve bits)) (fst (reserve bits))"
  using get_next_reset_bit_le [of bits]
  by (auto simp: reserve_def is_reserved_def Let_def nth_append)




lemma pick_reactors_picked:
  "pick_reactors mgr r cb st = access_all_threads cb (picked_reactors mgr r) st"
  by (simp add: pick_reactors_def picked_reactors_def worker_slots_loop_drop all_reactors_def)

lemma least_busy_scan_append:
  "least_busy_scan (cs @ ds) v = least_busy_scan ds (least_busy_scan cs v)"
  by (induction cs arbitrary: v) simp_all

lemma multicast_threads_least_busy:
  "r = least_busy_worker \<or> r = least_busy_user \<Longrightarrow>
   multicast_threads r msg R thrs (v, eff) =
     (least_busy_scan (map (Pair R) (filter (match_regex r) thrs)) v, eff)"
  by (induction thrs arbitrary: v) (auto simp: multicast_thread_def)

lemma multicast_cb_least_busy:
  assumes "r = least_busy_worker \<or> r = least_busy_user"
  shows "multicast_cb mgr r msg x is_last (v, eff) =
     (if is_last then least_busy_send mgr msg (least_busy_scan (reactor_matches r x) v, eff)
      else (least_busy_scan (reactor_matches r x) v, eff))"
proof -
  have st1: "(case x of None \<Rightarrow> (v, eff)
              | Some R \<Rightarrow> if is_io_reactor R then multicast_threads r msg R (io_threads R) (v, eff)
                          else (v, eff))
             = (least_busy_scan (reactor_matches r x) v, eff)"
    by (cases x) (simp_all add: reactor_matches_def multicast_threads_least_busy [OF assms])
  show ?thesis
    unfolding multicast_cb_def st1 least_busy_send_def
    by (simp split: option.split)
qed

lemma access_all_least_busy:
  assumes "r = least_busy_worker \<or> r = least_busy_user"
  shows "access_all_threads (multicast_cb mgr r msg) rs (v, eff) =
     (if rs = [] then (v, eff)
      else least_busy_send mgr msg (least_busy_scan (matching_threads r rs) v, eff))"
proof (induction rs arbitrary: v)
  case Nil
  then show ?case by simp
next
  case (Cons x xs)
  show ?case
  proof (cases "xs = []")
    case True
    then show ?thesis
      by (simp add: multicast_cb_least_busy [OF assms] matching_threads_def)
  next
    case False
    then show ?thesis
      using Cons [of "least_busy_scan (reactor_matches r x) v"]
      by (simp add: multicast_cb_least_busy [OF assms] matching_threads_def least_busy_scan_append)
  qed
qed


lemma first_least_busy_snoc_new:
  assumes "first_least_busy cs i" "outstanding_ops (snd c) < outstanding_ops (snd (cs ! i))"
  shows "first_least_busy (cs @ [c]) (length cs)"
  using assms unfolding first_least_busy_def
  by (auto simp: nth_append less_Suc_eq)

lemma first_least_busy_snoc_keep:
  assumes "first_least_busy cs i" "\<not> outstanding_ops (snd c) < outstanding_ops (snd (cs ! i))"
  shows "first_least_busy (cs @ [c]) i"
  using assms unfolding first_least_busy_def
  by (auto simp: nth_append less_Suc_eq)

lemma least_busy_scan_first_min:
  assumes "\<forall>c \<in> set cs. outstanding_ops (snd c) < min_cnt v"
  shows "(cs = [] \<and> least_busy_scan cs v = v)
         \<or> (\<exists>i. first_least_busy cs i \<and> least_busy_scan cs v = chosen (cs ! i) v)"
  using assms
proof (induction cs rule: rev_induct)
  case Nil
  then show ?case by simp
next
  case (snoc c cs)
  have step: "least_busy_scan (cs @ [c]) v =
      (let w = least_busy_scan cs v
       in if outstanding_ops (snd c) < min_cnt w then chosen c w else w)"
    by (simp add: least_busy_scan_append chosen_def Let_def)
  from snoc have IH: "(cs = [] \<and> least_busy_scan cs v = v)
         \<or> (\<exists>i. first_least_busy cs i \<and> least_busy_scan cs v = chosen (cs ! i) v)"
    by simp
  from IH show ?case
  proof
    assume e: "cs = [] \<and> least_busy_scan cs v = v"
    have c: "outstanding_ops (snd c) < min_cnt v" using snoc.prems by simp
    have "first_least_busy [c] 0" by (simp add: first_least_busy_def)
    moreover have "least_busy_scan [c] v = chosen ([c] ! 0) v"
      using c by (simp add: chosen_def)
    ultimately show ?thesis using e by auto
  next
    assume "\<exists>i. first_least_busy cs i \<and> least_busy_scan cs v = chosen (cs ! i) v"
    then obtain i where i: "first_least_busy cs i"
      and w: "least_busy_scan cs v = chosen (cs ! i) v" by blast
    have il: "i < length cs" using i by (simp add: first_least_busy_def)
    have m: "min_cnt (least_busy_scan cs v) = outstanding_ops (snd (cs ! i))"
      by (simp add: w chosen_def)
    show ?thesis
    proof (cases "outstanding_ops (snd c) < outstanding_ops (snd (cs ! i))")
      case True
      have "least_busy_scan (cs @ [c]) v = chosen ((cs @ [c]) ! length cs) v"
        using True by (simp add: step w chosen_def Let_def)
      then show ?thesis using first_least_busy_snoc_new [OF i True] by blast
    next
      case False
      have "least_busy_scan (cs @ [c]) v = chosen ((cs @ [c]) ! i) v"
        using False il by (simp add: step w nth_append chosen_def Let_def)
      then show ?thesis using first_least_busy_snoc_keep [OF i False] by blast
    qed
  qed
qed


lemma multicast_least_busy_result:
  assumes r: "r = least_busy_worker \<or> r = least_busy_user"
    and wf: "\<forall>c \<in> set (matching_threads r (picked_reactors mgr r)).
               outstanding_ops (snd c) < INTMAX_MAX
               \<and> addr_to_thread (fst c) (thread_addr (snd c)) = snd c"
  shows "(matching_threads r (picked_reactors mgr r) = []
            \<and> multicast_msg mgr rnd r msg eff = Returns (0, iomgr_msg_free msg eff))
         \<or> (\<exists>i. first_least_busy (matching_threads r (picked_reactors mgr r)) i
               \<and> multicast_msg mgr rnd r msg eff =
                   Returns (let (ok, eff1) =
                              send_msg mgr (snd (matching_threads r (picked_reactors mgr r) ! i)) msg eff
                            in if ok then (1, eff1) else (0, iomgr_msg_free msg eff1)))"
proof -
  let ?cs = "matching_threads r (picked_reactors mgr r)"
  have nr: "r \<noteq> random_worker" using r by auto
  have m: "multicast_msg mgr rnd r msg eff =
      Returns (multicast_finish msg
        (access_all_threads (multicast_cb mgr r msg) (picked_reactors mgr r) (mc_init, eff)))"
    using nr by (simp add: multicast_msg_def pick_reactors_picked)
  have b: "\<forall>c \<in> set ?cs. outstanding_ops (snd c) < min_cnt mc_init"
    using wf by (simp add: mc_init_def)
  show ?thesis
  proof (cases "?cs = []")
    case True
    have "access_all_threads (multicast_cb mgr r msg) (picked_reactors mgr r) (mc_init, eff)
            = (mc_init, eff)"
      using True
      by (simp add: access_all_least_busy [OF r] least_busy_send_def mc_init_def)
    then show ?thesis
      using True m by (simp add: multicast_finish_def mc_init_def)
  next
    case False
    then have ne: "picked_reactors mgr r \<noteq> []" by (auto simp: matching_threads_def)
    from least_busy_scan_first_min [OF b] False
    obtain i where i: "first_least_busy ?cs i"
      and s: "least_busy_scan ?cs mc_init = chosen (?cs ! i) mc_init" by blast
    have il: "?cs ! i \<in> set ?cs" using i by (simp add: first_least_busy_def)
    have a: "addr_to_thread (fst (?cs ! i)) (thread_addr (snd (?cs ! i))) = snd (?cs ! i)"
      using wf il by blast
    have "access_all_threads (multicast_cb mgr r msg) (picked_reactors mgr r) (mc_init, eff)
            = least_busy_send mgr msg (chosen (?cs ! i) mc_init, eff)"
      using ne by (simp add: access_all_least_busy [OF r] s)
    then have "multicast_msg mgr rnd r msg eff =
                   Returns (let (ok, eff1) = send_msg mgr (snd (?cs ! i)) msg eff
                            in if ok then (1, eff1) else (0, iomgr_msg_free msg eff1))"
      using m a
      by (simp add: least_busy_send_def chosen_def mc_init_def multicast_finish_def split_beta)
    then show ?thesis using i by blast
  qed
qed

lemma send_msg_queued:
  "(if fst (send_msg mgr t msg eff)
    then \<exists>d. queued (snd (send_msg mgr t msg eff)) = queued eff @ [d]
              \<and> delivered_msg d = msg\<lparr>m_dest_thread := thread_addr t\<rparr>
    else queued (snd (send_msg mgr t msg eff)) = queued eff)"
  by (cases "thread_impl t")
     (auto simp add: send_msg_def specific_reactor_def deliver_msg_def deliver_msg_direct_def
        iomgr_msg_free_def Let_def split: option.splits)

lemma deliver_clones_append:
  "deliver_clones msg (cs @ ds) eff = deliver_clones msg ds (deliver_clones msg cs eff)"
  by (induction cs arbitrary: eff) simp_all

lemma count_clones_add: "count_clones k (count_clones j v) = count_clones (j + k) v"
  by (simp add: count_clones_def)

lemma count_clones_Suc:
  "count_clones k (v\<lparr>cloned := True, sent_to := sent_to v + 1\<rparr>) = count_clones (Suc k) v"
  by (simp add: count_clones_def)

lemma min_reactor_count_clones [simp]: "min_reactor (count_clones k v) = min_reactor v"
  by (simp add: count_clones_def)

lemma multicast_threads_clone:
  "r \<noteq> least_busy_worker \<Longrightarrow> r \<noteq> least_busy_user \<Longrightarrow>
   multicast_threads r msg R thrs (v, eff) =
     (count_clones (length (filter (match_regex r) thrs)) v,
      deliver_clones msg (map (Pair R) (filter (match_regex r) thrs)) eff)"
proof (induction thrs arbitrary: v eff)
  case Nil
  then show ?case by (simp add: count_clones_def)
next
  case (Cons thr thrs)
  show ?case
  proof (cases "match_regex r thr")
    case True
    then show ?thesis
      using Cons
      by (simp add: multicast_thread_def split_beta count_clones_Suc Let_def)
  next
    case False
    then show ?thesis using Cons by (simp add: multicast_thread_def)
  qed
qed

lemma multicast_cb_clone:
  assumes "r \<noteq> least_busy_worker" "r \<noteq> least_busy_user" "min_reactor v = None"
  shows "multicast_cb mgr r msg x is_last (v, eff) =
     (count_clones (length (reactor_matches r x)) v, deliver_clones msg (reactor_matches r x) eff)"
proof -
  have st1: "(case x of None \<Rightarrow> (v, eff)
              | Some R \<Rightarrow> if is_io_reactor R then multicast_threads r msg R (io_threads R) (v, eff)
                          else (v, eff))
             = (count_clones (length (reactor_matches r x)) v,
                deliver_clones msg (reactor_matches r x) eff)"
    using assms(1,2)
    by (cases x) (simp_all add: reactor_matches_def multicast_threads_clone count_clones_def)
  show ?thesis
    unfolding multicast_cb_def st1 using assms(3) by simp
qed

lemma access_all_clone:
  assumes "r \<noteq> least_busy_worker" "r \<noteq> least_busy_user"
  shows "min_reactor v = None \<Longrightarrow>
     access_all_threads (multicast_cb mgr r msg) rs (v, eff) =
       (count_clones (length (matching_threads r rs)) v,
        deliver_clones msg (matching_threads r rs) eff)"
proof (induction rs arbitrary: v eff)
  case Nil
  then show ?case by (simp add: matching_threads_def count_clones_def)
next
  case (Cons x xs)
  have "min_reactor (count_clones (length (reactor_matches r x)) v) = None"
    using Cons.prems by simp
  from Cons.IH [OF this]
  show ?case
    using Cons.prems
    by (simp add: multicast_cb_clone [OF assms] matching_threads_def count_clones_add
        deliver_clones_append)
qed

lemma multicast_clone_result:
  assumes "r = all_io \<or> r = all_worker \<or> r = all_user \<or> r = least_busy_io"
  shows "multicast_msg mgr rnd r msg eff =
     Returns (int (length (matching_threads r (picked_reactors mgr r))),
              iomgr_msg_free msg (deliver_clones msg (matching_threads r (picked_reactors mgr r)) eff))"
proof -
  have r: "r \<noteq> least_busy_worker" "r \<noteq> least_busy_user" "r \<noteq> random_worker"
    using assms by auto
  have m: "min_reactor mc_init = None" by (simp add: mc_init_def)
  have "multicast_msg mgr rnd r msg eff =
      Returns (multicast_finish msg
        (count_clones (length (matching_threads r (picked_reactors mgr r))) mc_init,
         deliver_clones msg (matching_threads r (picked_reactors mgr r)) eff))"
    using r(3)
    by (simp add: multicast_msg_def pick_reactors_picked access_all_clone [OF r(1,2) m])
  then show ?thesis
    by (simp add: multicast_finish_def count_clones_def mc_init_def)
qed

lemma deliver_clones_frame:
  "freed (deliver_clones msg cs eff) = freed eff
   \<and> logs (deliver_clones msg cs eff) = logs eff
   \<and> calls (deliver_clones msg cs eff) = calls eff"
  by (induction cs arbitrary: eff)
     (simp_all add: iomgr_msg_clone_def deliver_msg_def split_beta Let_def)

lemma reactors_stop_all:
  "m_yet_to_stop_nreactors mgr = int n \<Longrightarrow> 0 < n \<Longrightarrow>
   reactors_stop n mgr = mgr\<lparr>m_yet_to_stop_nreactors := 0, m_state := stopped\<rparr>"
proof (induction n arbitrary: mgr)
  case 0
  then show ?case by simp
next
  case (Suc n)
  show ?case
  proof (cases "n = 0")
    case True
    then show ?thesis using Suc.prems by (simp add: reactor_stopped_def set_state_def)
  next
    case False
    have "m_yet_to_stop_nreactors (reactor_stopped mgr) = int n"
      using Suc.prems False by (simp add: reactor_stopped_def)
    from Suc.IH [OF this] False
    show ?thesis using Suc.prems by (simp add: reactor_stopped_def)
  qed
qed

lemma deliver_clones_queued_cong:
  "queued eff = queued eff' \<Longrightarrow> next_msg_id eff = next_msg_id eff' \<Longrightarrow>
   queued (deliver_clones msg cs eff) = queued (deliver_clones msg cs eff')"
proof (induction cs arbitrary: eff eff')
  case Nil
  then show ?case by simp
next
  case (Cons c cs)
  let ?step = "\<lambda>e. (let (new_msg, eff1) = iomgr_msg_clone msg e
                    in snd (deliver_msg (fst c) (thread_addr (snd c)) new_msg eff1))"
  have "queued (deliver_clones msg cs (?step eff)) = queued (deliver_clones msg cs (?step eff'))"
    by (rule Cons.IH)
       (use Cons.prems in \<open>simp_all add: iomgr_msg_clone_def deliver_msg_def split_beta Let_def\<close>)
  then show ?case by simp
qed

lemma deliver_clones_logs:
  "queued (deliver_clones msg cs (eff\<lparr>logs := l, next_msg_id := k\<rparr>))
     = queued (deliver_clones msg cs (eff\<lparr>next_msg_id := k\<rparr>))"
  by (rule deliver_clones_queued_cong) simp_all

subsection \<open>The thread selector\<close>

text \<open>
  C3. For every selector \<open>r\<close> and io thread \<open>thr\<close>, \<open>match_regex r thr\<close> is true exactly when
  \<open>r\<close> is \<open>all_io\<close> or \<open>least_busy_io\<close>, or the thread's reactor is a worker and \<open>r\<close> is one of
  \<open>all_worker\<close>, \<open>least_busy_worker\<close>, \<open>random_worker\<close>, or the thread's reactor is a user
  reactor and \<open>r\<close> is one of \<open>all_user\<close>, \<open>least_busy_user\<close>.
\<close>

theorem match_regex_iff:
  "match_regex r thr =
     ((r = all_io \<or> r = least_busy_io)
      \<or> (reactor_is_worker thr \<and> (r = all_worker \<or> r = least_busy_worker \<or> r = random_worker))
      \<or> (\<not> reactor_is_worker thr \<and> (r = all_user \<or> r = least_busy_user)))"
  by (cases r) (simp_all add: match_regex_def)

subsection \<open>Sending one message\<close>

text \<open>
  C10. When the destination thread is reached through a polled (spdk) thread handle,
  \<open>send_msg\<close> delivers directly, returns true and frees nothing. It returns false only when
  the destination is reached through a reactor index and the reactor looked up there is
  absent, is not an io reactor, or its \<^verbatim>\<open>deliver_msg\<close> returns false; the message is freed
  (once) exactly when \<open>send_msg\<close> returns false.
\<close>

theorem send_msg_outcome:
  "(\<forall>h. thread_impl t = spdk_thread_impl h \<longrightarrow>
      send_msg mgr t msg eff =
        (True, eff\<lparr>queued := queued eff @ [Queued_direct h (msg\<lparr>m_dest_thread := thread_addr t\<rparr>)]\<rparr>))
   \<and> ((\<not> fst (send_msg mgr t msg eff)) =
        (\<exists>n. thread_impl t = reactor_idx_impl n \<and>
           specific_reactor mgr n (\<lambda>reactor. case reactor of
               None \<Rightarrow> True
             | Some R \<Rightarrow> \<not> is_io_reactor R \<or>
                 \<not> deliver_msg_ok R (thread_addr t) (msg\<lparr>m_dest_thread := thread_addr t\<rparr>))))
   \<and> freed (snd (send_msg mgr t msg eff)) =
        (if fst (send_msg mgr t msg eff) then freed eff else freed eff @ [msg_id msg])"
  by (cases "thread_impl t")
     (auto simp add: send_msg_def specific_reactor_def deliver_msg_def deliver_msg_direct_def
        iomgr_msg_free_def Let_def split: option.splits)

theorem send_msg_outcome_witness:
  "send_msg (mgr_with running [refusing_reactor]) thr_spdk msg0 eff0 =
     (True, eff0\<lparr>queued := [Queued_direct 7 msg0]\<rparr>)
   \<and> \<not> fst (send_msg (mgr_with running [refusing_reactor]) thr_w0 msg0 eff0)
   \<and> freed (snd (send_msg (mgr_with running [refusing_reactor]) thr_w0 msg0 eff0)) = [0]"
proof -
  have spdk: "thread_impl thr_spdk = spdk_thread_impl 7"
    by (simp add: thr_spdk_def)
  have a: "send_msg (mgr_with running [refusing_reactor]) thr_spdk msg0 eff0 =
             (True, eff0\<lparr>queued := [Queued_direct 7 msg0]\<rparr>)"
    using send_msg_outcome [of thr_spdk "mgr_with running [refusing_reactor]" msg0 eff0] spdk
    by (simp add: thr_spdk_def msg0_def eff0_def)
  have b: "\<not> fst (send_msg (mgr_with running [refusing_reactor]) thr_w0 msg0 eff0)"
    using send_msg_outcome [of thr_w0 "mgr_with running [refusing_reactor]" msg0 eff0]
    by (simp add: thr_w0_def specific_reactor_def mgr_with_def refusing_reactor_def)
  have c: "freed (snd (send_msg (mgr_with running [refusing_reactor]) thr_w0 msg0 eff0)) = [0]"
    using send_msg_outcome [of thr_w0 "mgr_with running [refusing_reactor]" msg0 eff0] b
    by (simp add: msg0_def eff0_def)
  show ?thesis using a b c by blast
qed

subsection \<open>Global timers\<close>

text \<open>
  C7, as amended. \<open>schedule_global_timer\<close> with a selector other than \<open>all_worker\<close> and
  \<open>all_user\<close> schedules nothing (the manager is unchanged, only a log line is written) and
  returns the null handle. With \<open>all_worker\<close>, on a manager whose global worker timer
  exists, it schedules on that timer and returns the handle the timer gives; with
  \<open>all_user\<close>, on a manager whose global user timer exists, it does so on the global user
  timer.
\<close>

theorem schedule_global_timer_routing:
  "(r \<noteq> all_worker \<and> r \<noteq> all_user \<longrightarrow>
      schedule_global_timer nanos rec ck r fn mgr eff =
        (Returns null_timer_handle, mgr,
         eff\<lparr>logs := logs eff @ [LOGERROR ''Setting timer with invalid regex'']\<rparr>))
   \<and> (m_global_worker_timer mgr = Some t \<longrightarrow>
      schedule_global_timer nanos rec ck all_worker fn mgr eff =
        (Returns (fst (timer_schedule t nanos rec ck fn)),
         mgr\<lparr>m_global_worker_timer := Some (snd (timer_schedule t nanos rec ck fn))\<rparr>, eff))
   \<and> (m_global_user_timer mgr = Some t \<longrightarrow>
      schedule_global_timer nanos rec ck all_user fn mgr eff =
        (Returns (fst (timer_schedule t nanos rec ck fn)),
         mgr\<lparr>m_global_user_timer := Some (snd (timer_schedule t nanos rec ck fn))\<rparr>, eff))"
  by (simp add: schedule_global_timer_def split_beta)

theorem schedule_global_timer_routing_witness:
  "fst (schedule_global_timer 5 False 0 least_busy_worker 0 (mgr_with running []) eff0)
     = Returns null_timer_handle
   \<and> fst (snd (schedule_global_timer 5 False 0 least_busy_worker 0 (mgr_with running []) eff0))
     = mgr_with running []
   \<and> fst (schedule_global_timer 5 False 0 all_worker 0 (mgr_with running []) eff0)
     = Returns (Timer_handle all_worker 0)
   \<and> fst (schedule_global_timer 5 False 0 all_user 0 (mgr_with running []) eff0)
     = Returns (Timer_handle all_user 0)"
proof -
  let ?M = "mgr_with running []"
  have w: "m_global_worker_timer ?M =
             Some \<lparr>timer_scope = all_worker, timer_is_spdk = False, timer_entries = []\<rparr>"
    by (simp add: mgr_with_def)
  have u: "m_global_user_timer ?M =
             Some \<lparr>timer_scope = all_user, timer_is_spdk = False, timer_entries = []\<rparr>"
    by (simp add: mgr_with_def)
  have a: "schedule_global_timer 5 False 0 least_busy_worker 0 ?M eff0 =
             (Returns null_timer_handle, ?M,
              eff0\<lparr>logs := logs eff0 @ [LOGERROR ''Setting timer with invalid regex'']\<rparr>)"
    using schedule_global_timer_routing [where r = least_busy_worker and mgr = ?M] by simp
  have b: "fst (schedule_global_timer 5 False 0 all_worker 0 ?M eff0)
             = Returns (Timer_handle all_worker 0)"
    using schedule_global_timer_routing [where mgr = ?M, THEN conjunct2, THEN conjunct1, rule_format, OF w]
    by (simp add: timer_schedule_def)
  have c: "fst (schedule_global_timer 5 False 0 all_user 0 ?M eff0)
             = Returns (Timer_handle all_user 0)"
    using schedule_global_timer_routing [where mgr = ?M, THEN conjunct2, THEN conjunct2, rule_format, OF u]
    by (simp add: timer_schedule_def)
  show ?thesis using a b c by simp
qed

text \<open>
  C7 as stated fails on a manager whose timers do not exist, which is the case before
  \<open>start\<close> has made them and after \<open>stop\<close> has reset them: \<^verbatim>\<open>t\<close> is null at line 361, nothing
  is scheduled and no handle is returned.
\<close>

theorem schedule_global_timer_null_counterexample:
  "m_global_worker_timer (IOManager_ctor 8) = None
   \<and> schedule_global_timer 5 False 0 all_worker 0 (IOManager_ctor 8) eff0
       = (Crashes, IOManager_ctor 8, eff0)"
  by (simp add: schedule_global_timer_def IOManager_ctor_def)

subsection \<open>Thread indices\<close>

text \<open>
  C8. \<open>make_io_thread\<close> throws a system error when the index it reserves is at or above
  \<open>max_io_threads\<close>; otherwise it returns an io thread whose \<open>thread_idx\<close> is that index:
  below \<open>max_io_threads\<close>, not held by the reserver before the call and held by it after.
\<close>

theorem make_io_thread_limit:
  "(fst (reserve (m_thread_idx_reserver mgr)) \<ge> max_io_threads \<longrightarrow>
      fst (make_io_thread max_io_threads reactor mgr)
        = Throws (System_error ''Running IO Threads exceeds limit''))
   \<and> (fst (reserve (m_thread_idx_reserver mgr)) < max_io_threads \<longrightarrow>
      (\<exists>t. fst (make_io_thread max_io_threads reactor mgr) = Returns t
         \<and> thread_idx t < max_io_threads
         \<and> thread_idx t = fst (reserve (m_thread_idx_reserver mgr))
         \<and> \<not> is_reserved (m_thread_idx_reserver mgr) (thread_idx t)
         \<and> is_reserved (m_thread_idx_reserver (snd (make_io_thread max_io_threads reactor mgr)))
              (thread_idx t)))"
  using reserve_fresh [of "m_thread_idx_reserver mgr"] reserve_reserved [of "m_thread_idx_reserver mgr"]
  by (auto simp: make_io_thread_def Let_def split_beta)

theorem make_io_thread_limit_witness:
  "fst (make_io_thread 1 accepting_reactor (mgr_with running []))
     = Throws (System_error ''Running IO Threads exceeds limit'')
   \<and> (\<exists>t. fst (make_io_thread 2 accepting_reactor (mgr_with running [])) = Returns t
         \<and> thread_idx t = 1)"
proof -
  have r: "fst (reserve (m_thread_idx_reserver (mgr_with running []))) = 1"
    by (simp add: mgr_with_def reserve_def)
  have a: "fst (make_io_thread 1 accepting_reactor (mgr_with running []))
             = Throws (System_error ''Running IO Threads exceeds limit'')"
    using make_io_thread_limit [of 1 "mgr_with running []" accepting_reactor] r by simp
  have b: "\<exists>t. fst (make_io_thread 2 accepting_reactor (mgr_with running [])) = Returns t
             \<and> thread_idx t = 1"
    using make_io_thread_limit [of 2 "mgr_with running []" accepting_reactor] r by auto
  show ?thesis using a b by blast
qed

subsection \<open>Aligned buffers\<close>




subsection \<open>Start while running\<close>

text \<open>
  C4. \<open>start\<close> called while the state is \<open>running\<close> writes a warning and returns; the manager
  is left as it was (no counter set, no interface added, no worker slot or thread made,
  state still \<open>running\<close>) and nothing but the log line happens outside it.
\<close>

theorem start_while_running:
  "m_state mgr = running \<Longrightarrow>
   start num_threads is_spdk notifier iface_adder env mgr eff =
     (Returns (), mgr,
      eff\<lparr>logs := logs eff @ [LOGWARN ''WARNING: IOManager is asked to start, but it is already in running state. Ignoring the start request'']\<rparr>)"
  by (simp add: start_def)

theorem start_while_running_witness:
  "m_state (mgr_with running [accepting_reactor]) = running
   \<and> fst (snd (start 4 False None None env0 (mgr_with running [accepting_reactor]) eff0))
       = mgr_with running [accepting_reactor]
   \<and> calls (snd (snd (start 4 False None None env0 (mgr_with running [accepting_reactor]) eff0))) = []"
proof -
  have h: "m_state (mgr_with running [accepting_reactor]) = running"
    by (simp add: mgr_with_def)
  show ?thesis
    using h start_while_running [OF h, of 4 False None None env0 eff0] by (simp add: eff0_def)
qed

subsection \<open>Least-busy multicast\<close>

text \<open>
  C2, as amended. For \<open>r\<close> one of \<open>least_busy_worker\<close>, \<open>least_busy_user\<close>, let the matching
  threads be those of the io reactors that \<open>pick_reactors\<close> visits, in scan order, each
  with \<open>outstanding_ops\<close> below \<open>INTMAX_MAX\<close> and found by its reactor's \<open>addr_to_thread\<close>. If
  there is none, nothing is queued and the call returns 0. Otherwise the original message
  is passed to \<open>send_msg\<close> once, for the thread that has the least \<open>outstanding_ops\<close> and is
  the first such in the scan: the queue afterwards is the one \<open>send_msg\<close> leaves; when
  \<open>send_msg\<close> succeeds that is exactly one new entry, the original message addressed to
  that thread, and the call returns 1; when it fails nothing is queued and the call
  returns 0.
\<close>

theorem multicast_least_busy:
  assumes "r = least_busy_worker \<or> r = least_busy_user"
    and "\<forall>c \<in> set (matching_threads r (picked_reactors mgr r)).
               outstanding_ops (snd c) < INTMAX_MAX
               \<and> addr_to_thread (fst c) (thread_addr (snd c)) = snd c"
  shows "(matching_threads r (picked_reactors mgr r) = []
            \<and> (\<exists>eff'. multicast_msg mgr rnd r msg eff = Returns (0, eff') \<and> queued eff' = queued eff))
         \<or> (\<exists>i n eff'. first_least_busy (matching_threads r (picked_reactors mgr r)) i
               \<and> multicast_msg mgr rnd r msg eff = Returns (n, eff')
               \<and> queued eff' =
                   queued (snd (send_msg mgr (snd (matching_threads r (picked_reactors mgr r) ! i)) msg eff))
               \<and> (if fst (send_msg mgr (snd (matching_threads r (picked_reactors mgr r) ! i)) msg eff)
                   then n = 1 \<and> (\<exists>d. queued eff' = queued eff @ [d]
                          \<and> delivered_msg d = msg\<lparr>m_dest_thread :=
                               thread_addr (snd (matching_threads r (picked_reactors mgr r) ! i))\<rparr>)
                   else n = 0 \<and> queued eff' = queued eff))"
proof -
  let ?cs = "matching_threads r (picked_reactors mgr r)"
  from multicast_least_busy_result [OF assms, of rnd msg eff]
  show ?thesis
  proof
    assume "?cs = [] \<and> multicast_msg mgr rnd r msg eff = Returns (0, iomgr_msg_free msg eff)"
    then show ?thesis by (simp add: iomgr_msg_free_def)
  next
    assume "\<exists>i. first_least_busy ?cs i
               \<and> multicast_msg mgr rnd r msg eff =
                   Returns (let (ok, eff1) = send_msg mgr (snd (?cs ! i)) msg eff
                            in if ok then (1, eff1) else (0, iomgr_msg_free msg eff1))"
    then obtain i where i: "first_least_busy ?cs i"
      and m: "multicast_msg mgr rnd r msg eff =
                   Returns (let (ok, eff1) = send_msg mgr (snd (?cs ! i)) msg eff
                            in if ok then (1, eff1) else (0, iomgr_msg_free msg eff1))"
      by blast
    show ?thesis
    proof (cases "fst (send_msg mgr (snd (?cs ! i)) msg eff)")
      case True
      then have "multicast_msg mgr rnd r msg eff = Returns (1, snd (send_msg mgr (snd (?cs ! i)) msg eff))"
        using m by (simp add: split_beta)
      then show ?thesis
        using i True send_msg_queued [of mgr "snd (?cs ! i)" msg eff] by auto
    next
      case False
      then have "multicast_msg mgr rnd r msg eff =
          Returns (0, iomgr_msg_free msg (snd (send_msg mgr (snd (?cs ! i)) msg eff)))"
        using m by (simp add: split_beta)
      then show ?thesis
        using i False send_msg_queued [of mgr "snd (?cs ! i)" msg eff]
        by (auto simp: iomgr_msg_free_def)
    qed
  qed
qed

theorem multicast_least_busy_witness:
  "\<exists>eff'. multicast_msg (mgr_with running [accepting_reactor, accepting_reactor1]) 0
             least_busy_worker msg0 eff0 = Returns (1, eff')
          \<and> queued eff' = [Queued 0 0 msg0]"
proof -
  let ?M = "mgr_with running [accepting_reactor, accepting_reactor1]"
  let ?cs = "[(accepting_reactor, thr_w0), (accepting_reactor1, thr_w1)]"
  have cs: "matching_threads least_busy_worker (picked_reactors ?M least_busy_worker) = ?cs"
    by (simp add: matching_threads_def picked_reactors_def reactor_matches_def match_regex_def
        mgr_with_def accepting_reactor_def accepting_reactor1_def thr_w0_def thr_w1_def)
  have wf: "\<forall>c \<in> set (matching_threads least_busy_worker (picked_reactors ?M least_busy_worker)).
              outstanding_ops (snd c) < INTMAX_MAX
              \<and> addr_to_thread (fst c) (thread_addr (snd c)) = snd c"
    unfolding cs
    by (simp add: INTMAX_MAX_def accepting_reactor_def accepting_reactor1_def thr_w0_def thr_w1_def)
  have first: "\<And>i. first_least_busy ?cs i \<Longrightarrow> i = 0"
    by (auto simp: first_least_busy_def less_Suc_eq thr_w0_def thr_w1_def)
  have sm: "send_msg ?M thr_w0 msg0 eff0 = (True, eff0\<lparr>queued := [Queued 0 0 msg0]\<rparr>)"
    by (simp add: send_msg_def specific_reactor_def deliver_msg_def mgr_with_def
        accepting_reactor_def thr_w0_def msg0_def eff0_def)
  have "(?cs = []
            \<and> (\<exists>eff'. multicast_msg ?M 0 least_busy_worker msg0 eff0 = Returns (0, eff')
                  \<and> queued eff' = queued eff0))
         \<or> (\<exists>i n eff'. first_least_busy ?cs i
               \<and> multicast_msg ?M 0 least_busy_worker msg0 eff0 = Returns (n, eff')
               \<and> queued eff' = queued (snd (send_msg ?M (snd (?cs ! i)) msg0 eff0))
               \<and> (if fst (send_msg ?M (snd (?cs ! i)) msg0 eff0)
                   then n = 1 \<and> (\<exists>d. queued eff' = queued eff0 @ [d]
                          \<and> delivered_msg d = msg0\<lparr>m_dest_thread := thread_addr (snd (?cs ! i))\<rparr>)
                   else n = 0 \<and> queued eff' = queued eff0))"
    using multicast_least_busy [of least_busy_worker ?M 0 msg0 eff0, OF _ wf]
    unfolding cs by blast
  then obtain i n eff' where i: "first_least_busy ?cs i"
    and m: "multicast_msg ?M 0 least_busy_worker msg0 eff0 = Returns (n, eff')"
    and q: "queued eff' = queued (snd (send_msg ?M (snd (?cs ! i)) msg0 eff0))"
    and n: "if fst (send_msg ?M (snd (?cs ! i)) msg0 eff0)
            then n = 1 \<and> (\<exists>d. queued eff' = queued eff0 @ [d]
                          \<and> delivered_msg d = msg0\<lparr>m_dest_thread := thread_addr (snd (?cs ! i))\<rparr>)
            else n = 0 \<and> queued eff' = queued eff0"
    by blast
  have i0: "i = 0" using first [OF i] .
  have "n = 1" using n by (simp add: i0 sm)
  moreover have "queued eff' = [Queued 0 0 msg0]" using q by (simp add: i0 sm)
  ultimately show ?thesis using m by blast
qed

text \<open>
  C2 as stated fails where \<open>send_msg\<close> fails: the worker reactor below has a matching
  thread, its \<^verbatim>\<open>deliver_msg\<close> returns false, and the call returns 0 with nothing queued.
\<close>

theorem multicast_least_busy_counterexample:
  "matching_threads least_busy_worker
      (picked_reactors (mgr_with running [refusing_reactor]) least_busy_worker)
     = [(refusing_reactor, thr_w0)]
   \<and> map_option fst (returned (multicast_msg (mgr_with running [refusing_reactor]) 0
         least_busy_worker msg0 eff0)) = Some 0
   \<and> map_option (\<lambda>res. queued (snd res)) (returned (multicast_msg (mgr_with running [refusing_reactor]) 0
         least_busy_worker msg0 eff0)) = Some []"
  by (simp add: multicast_msg_def pick_reactors_picked picked_reactors_def matching_threads_def
      reactor_matches_def mgr_with_def refusing_reactor_def returned_def
      multicast_cb_def multicast_thread_def match_regex_def thr_w0_def mc_init_def INTMAX_MAX_def
      send_msg_def specific_reactor_def deliver_msg_def multicast_finish_def iomgr_msg_free_def
      msg0_def eff0_def)

subsection \<open>Freeing the original message\<close>

text \<open>
  C1. With a \<open>least_busy\<close> selector the original message goes to \<open>send_msg\<close>, which frees it
  when it fails; \<open>multicast_msg\<close> then finds \<open>sent_to\<close> at 0 and frees it again. For one
  worker reactor whose \<^verbatim>\<open>deliver_msg\<close> returns false, the call returns 0 and the message has
  been freed twice.
\<close>

theorem multicast_least_busy_double_free:
  "multicast_msg (mgr_with running [refusing_reactor]) rnd least_busy_worker msg0 eff0
     = Returns (0, eff0\<lparr>freed := [msg_id msg0, msg_id msg0]\<rparr>)"
  by (simp add: multicast_msg_def pick_reactors_picked picked_reactors_def mgr_with_def
      refusing_reactor_def multicast_cb_def multicast_thread_def match_regex_def thr_w0_def
      mc_init_def INTMAX_MAX_def send_msg_def specific_reactor_def deliver_msg_def
      multicast_finish_def iomgr_msg_free_def msg0_def eff0_def)

subsection \<open>Multicast to a random worker\<close>

text \<open>
  C6, as amended. With \<open>random_worker\<close>, a drawn slot number within the worker slots and a
  reactor attached to that slot, the original message (no clone is made) is offered once
  to that reactor's \<^verbatim>\<open>deliver_msg\<close>: if the reactor takes it, it is queued once and the call
  returns 1; if the reactor refuses it, nothing is queued, the original is freed and the
  call returns 0.
\<close>

theorem multicast_random_worker:
  assumes "rnd < length (m_worker_reactors mgr)"
    and "snd (m_worker_reactors mgr ! rnd) = Some R"
  shows "(\<exists>addr. deliver_msg_ok R addr msg
            \<and> multicast_msg mgr rnd random_worker msg eff =
                Returns (1, eff\<lparr>queued := queued eff @ [Queued (reactor_num R) addr msg]\<rparr>))
         \<or> (\<exists>addr. \<not> deliver_msg_ok R addr msg
            \<and> multicast_msg mgr rnd random_worker msg eff =
                Returns (0, eff\<lparr>freed := freed eff @ [msg_id msg]\<rparr>))"
  using assms
  by (cases "deliver_msg_ok R (thread_idx (select_thread R)) msg")
     (auto simp: multicast_msg_def deliver_msg_def multicast_finish_def mc_init_def iomgr_msg_free_def)

theorem multicast_random_worker_witness:
  "\<exists>addr. multicast_msg (mgr_with running [accepting_reactor, accepting_reactor1]) 1
            random_worker msg0 eff0
          = Returns (1, eff0\<lparr>queued := [Queued 1 addr msg0]\<rparr>)"
proof -
  let ?M = "mgr_with running [accepting_reactor, accepting_reactor1]"
  have a: "1 < length (m_worker_reactors ?M)" by (simp add: mgr_with_def)
  have b: "snd (m_worker_reactors ?M ! 1) = Some accepting_reactor1" by (simp add: mgr_with_def)
  from multicast_random_worker [OF a b, of msg0 eff0]
  show ?thesis by (auto simp: accepting_reactor1_def eff0_def)
qed

text \<open>
  C6 as stated fails for a reactor whose \<^verbatim>\<open>deliver_msg\<close> returns false: a worker slot exists,
  the call returns 0 and the message is freed, not delivered.
\<close>

theorem multicast_random_worker_counterexample:
  "0 < length (m_worker_reactors (mgr_with running [refusing_reactor]))
   \<and> multicast_msg (mgr_with running [refusing_reactor]) 0 random_worker msg0 eff0
       = Returns (0, eff0\<lparr>freed := [msg_id msg0]\<rparr>)"
  by (simp add: multicast_msg_def mgr_with_def refusing_reactor_def deliver_msg_def
      multicast_finish_def mc_init_def iomgr_msg_free_def msg0_def eff0_def)

subsection \<open>Stop\<close>

text \<open>
  C5, as amended. \<open>stop\<close> does not look at the state. In every state, running or not, it
  sets the state to \<open>stopping\<close>, resets both global timers and multicasts a
  \<open>RELINQUISH_IO_THREAD\<close> message to \<open>all_io\<close> (a clone for every io thread, the original
  freed); when as many reactors report that they stopped as had started, it returns with
  the state \<open>stopped\<close>, both timers gone, and the worker slots and both interface lists
  empty.
\<close>

theorem stop_unconditional:
  assumes "m_yet_to_stop_nreactors mgr = int n"
  shows "fst (stop n mgr eff) = Returns ()
   \<and> fst (snd (stop n mgr eff)) =
       mgr\<lparr>m_state := stopped, m_yet_to_stop_nreactors := 0, m_yet_to_start_nreactors := 0,
           m_global_user_timer := None, m_global_worker_timer := None,
           m_worker_reactors := [], m_drive_ifaces := [], m_iface_list := []\<rparr>
   \<and> freed (snd (snd (stop n mgr eff))) = freed eff @ [next_msg_id eff]
   \<and> queued (snd (snd (stop n mgr eff))) =
       queued (deliver_clones (relinquish_msg mgr eff) (matching_threads all_io (m_reactors mgr))
                 (eff\<lparr>next_msg_id := Suc (next_msg_id eff)\<rparr>))"
proof (cases "n = 0")
  case True
  then show ?thesis
    using assms
    by (simp add: stop_def set_state_def iomgr_msg_create_def multicast_clone_result
        iomgr_msg_free_def deliver_clones_frame Let_def relinquish_msg_def picked_reactors_def
        deliver_clones_logs)
next
  case False
  then show ?thesis
    using assms
    by (simp add: stop_def set_state_def iomgr_msg_create_def multicast_clone_result
        iomgr_msg_free_def deliver_clones_frame Let_def reactors_stop_all relinquish_msg_def
        picked_reactors_def deliver_clones_logs)
qed

theorem stop_unconditional_witness:
  "fst (stop 1 (mgr_with sys_init [accepting_reactor]) eff0) = Returns ()
   \<and> m_state (fst (snd (stop 1 (mgr_with sys_init [accepting_reactor]) eff0))) = stopped
   \<and> m_global_worker_timer (fst (snd (stop 1 (mgr_with sys_init [accepting_reactor]) eff0))) = None
   \<and> m_worker_reactors (fst (snd (stop 1 (mgr_with sys_init [accepting_reactor]) eff0))) = []
   \<and> m_iface_list (fst (snd (stop 1 (mgr_with sys_init [accepting_reactor]) eff0))) = []
   \<and> freed (snd (snd (stop 1 (mgr_with sys_init [accepting_reactor]) eff0))) = [1]
   \<and> queued (snd (snd (stop 1 (mgr_with sys_init [accepting_reactor]) eff0))) =
       [Queued 0 0 \<lparr>msg_id = 2, m_type = RELINQUISH_IO_THREAD, m_module_id = 0, m_dest_thread = 0\<rparr>]"
proof -
  have h: "m_yet_to_stop_nreactors (mgr_with sys_init [accepting_reactor]) = int 1"
    by (simp add: mgr_with_def)
  have cs: "matching_threads all_io (m_reactors (mgr_with sys_init [accepting_reactor]))
              = [(accepting_reactor, thr_w0)]"
    by (simp add: matching_threads_def reactor_matches_def match_regex_def mgr_with_def
        accepting_reactor_def)
  have q: "queued (deliver_clones (relinquish_msg (mgr_with sys_init [accepting_reactor]) eff0)
                    [(accepting_reactor, thr_w0)] (eff0\<lparr>next_msg_id := Suc (next_msg_id eff0)\<rparr>))
           = [Queued 0 0 \<lparr>msg_id = 2, m_type = RELINQUISH_IO_THREAD, m_module_id = 0, m_dest_thread = 0\<rparr>]"
    by (simp add: relinquish_msg_def iomgr_msg_clone_def deliver_msg_def mgr_with_def
        accepting_reactor_def thr_w0_def eff0_def)
  show ?thesis
    using stop_unconditional [OF h, of eff0] q
    by (simp add: cs eff0_def)
qed

text \<open>
  C5 as stated fails on a manager that was never started: \<open>stop\<close> moves it from
  \<open>uninitialized\<close> to \<open>stopped\<close>, and creates, multicasts and frees a message.
\<close>

theorem stop_not_running_counterexample:
  "m_state (IOManager_ctor 8) \<noteq> running
   \<and> stop 0 (IOManager_ctor 8) eff0 =
       (Returns (), (IOManager_ctor 8)\<lparr>m_state := stopped\<rparr>,
        eff0\<lparr>logs := [LOGINFO ''Stopping IOManager'', LOGINFO ''All IO threads have stopped'',
                      LOGINFO ''IOManager Stopped and all IO threads are relinquished''],
             freed := [1], next_msg_id := 2\<rparr>)"
  by (simp add: stop_def IOManager_ctor_def set_state_def iomgr_msg_create_def eff0_def
      multicast_msg_def pick_reactors_def all_reactors_def mc_init_def multicast_finish_def
      iomgr_msg_free_def join_threads_def)

end
